theory Spec2Isabelle
  imports Main "HOL-Library.Sublist"
begin

section \<open>Console output\<close>

text \<open>
  The only effect of the snippets outside their own objects is \<^verbatim>\<open>console.log\<close>.
  The console is the list of the lines printed so far, oldest first;
  \<^verbatim>\<open>console.log(line)\<close> appends one line and cannot fail.
\<close>

type_synonym console = "string list"

definition console_log :: "string \<Rightarrow> console \<Rightarrow> console" where
  "console_log line out = out @ [line]"

section \<open>Singleton: DatabaseConnection\<close>

text \<open>
  An object of class \<^verbatim>\<open>DatabaseConnection\<close> has no field; what distinguishes two of
  them is their identity, the number under which \<^verbatim>\<open>new\<close> allocated them.
  The static field \<^verbatim>\<open>DatabaseConnection.instance\<close> is undefined until the first
  assignment (\<open>None\<close>); an object is truthy, so \<^verbatim>\<open>!DatabaseConnection.instance\<close>
  holds exactly when the field is undefined.
\<close>

datatype DatabaseConnection = DatabaseConnection (ident_of: nat)

record runtime =
  the_instance :: "DatabaseConnection option"
  allocated :: nat
  console :: console

definition initial_runtime :: runtime where
  "initial_runtime = \<lparr>the_instance = None, allocated = 0, console = []\<rparr>"

text \<open>
  \<^verbatim>\<open>new DatabaseConnection()\<close>: a fresh identity, and the private constructor prints
  its line.
\<close>

definition new_DatabaseConnection :: "runtime \<Rightarrow> DatabaseConnection \<times> runtime" where
  "new_DatabaseConnection rt =
     (DatabaseConnection (allocated rt),
      rt\<lparr>allocated := Suc (allocated rt),
         console := console_log ''New DatabaseConnection instance created.'' (console rt)\<rparr>)"

definition getInstance :: "runtime \<Rightarrow> DatabaseConnection \<times> runtime" where
  "getInstance rt =
     (case the_instance rt of
        None \<Rightarrow>
          (let (c, rt') = new_DatabaseConnection rt
           in (c, rt'\<lparr>the_instance := Some c\<rparr>))
      | Some c \<Rightarrow> (c, rt))"

definition query :: "DatabaseConnection \<Rightarrow> string \<Rightarrow> console \<Rightarrow> console" where
  "query db sql out = console_log (''Executing query: '' @ sql) out"

text \<open>
  \<open>getInstance_times n\<close> is a caller that requests the instance \<open>n\<close> times in a row
  and keeps every returned reference, first call first.
\<close>

fun getInstance_times :: "nat \<Rightarrow> runtime \<Rightarrow> DatabaseConnection list \<times> runtime" where
  "getInstance_times 0 rt = ([], rt)"
| "getInstance_times (Suc n) rt =
     (let (c, rt') = getInstance rt;
          (cs, rt'') = getInstance_times n rt'
      in (c # cs, rt''))"

text \<open>How many times the constructor has run: the number of its lines on the console.\<close>

definition constructions :: "runtime \<Rightarrow> nat" where
  "constructions rt =
     length (filter (\<lambda>l. l = ''New DatabaseConnection instance created.'') (console rt))"

section \<open>Factory: VehicleFactory\<close>

datatype Vehicle = Car | Bike

fun drive :: "Vehicle \<Rightarrow> console \<Rightarrow> console" where
  "drive Car out = console_log ''Driving a car'' out"
| "drive Bike out = console_log ''Riding a bike'' out"

text \<open>
  What a call can throw: \<^verbatim>\<open>new Error(message)\<close> from a \<^verbatim>\<open>throw\<close> statement, or the
  \<^verbatim>\<open>TypeError\<close> the language raises when a property of \<^verbatim>\<open>undefined\<close> is read
  (its message is the engine's; the start of it is kept).
\<close>

datatype error = Error string | TypeError string

definition createVehicle :: "string \<Rightarrow> error + Vehicle" where
  "createVehicle type =
     (if type = ''car'' then Inr Car
      else if type = ''bike'' then Inr Bike
      else Inl (Error ''Vehicle type not supported''))"

section \<open>Numbers\<close>

text \<open>
  A price or an amount is a \<^verbatim>\<open>number\<close> that the code stores, passes on and prints,
  and never computes with: its type is left open (\<open>'n\<close>), and the conversion to a
  string that a template literal applies to it is the parameter \<open>toString\<close> of the
  operations that print one. For the integers of the usage scripts the conversion is
  the decimal numeral, with a minus sign in front of a negative one.
\<close>

definition digit :: "nat \<Rightarrow> char" where
  "digit d = ''0123456789'' ! d"

fun decimal :: "nat \<Rightarrow> string" where
  "decimal n = (if n < 10 then [digit n] else decimal (n div 10) @ [digit (n mod 10)])"

definition Number_toString :: "int \<Rightarrow> string" where
  "Number_toString i = (if i < 0 then ''-'' @ decimal (nat (- i)) else decimal (nat i))"

section \<open>Observer: Stock and Investor\<close>

text \<open>
  An object that implements \<^verbatim>\<open>interface Observer\<close> is its identity (what
  \<^verbatim>\<open>!==\<close> compares) and its \<^verbatim>\<open>update\<close> method, which acts on a state \<open>'s\<close>
  outside the stock: the console for an \<^verbatim>\<open>Investor\<close>. An observer whose \<^verbatim>\<open>update\<close>
  throws, or calls back into the stock that is notifying it, is outside this model;
  the repository has none.
\<close>

record ('n, 's) Observer =
  ident :: nat
  update :: "'n \<Rightarrow> 's \<Rightarrow> 's"

record ('n, 's) Stock =
  observers :: "('n, 's) Observer list"
  price :: 'n

definition new_Stock :: "('n::numeral, 's) Stock" where
  "new_Stock = \<lparr>observers = [], price = 100\<rparr>"

definition addObserver :: "('n, 's) Observer \<Rightarrow> ('n, 's) Stock \<Rightarrow> ('n, 's) Stock" where
  "addObserver observer s = s\<lparr>observers := observers s @ [observer]\<rparr>"

definition removeObserver :: "('n, 's) Observer \<Rightarrow> ('n, 's) Stock \<Rightarrow> ('n, 's) Stock" where
  "removeObserver observer s =
     s\<lparr>observers := filter (\<lambda>ob. ident ob \<noteq> ident observer) (observers s)\<rparr>"

definition notifyObservers :: "('n, 's) Stock \<Rightarrow> 's \<Rightarrow> 's" where
  "notifyObservers s st =
     foldl (\<lambda>st observer. update observer (price s) st) st (observers s)"

definition setPrice :: "'n \<Rightarrow> ('n, 's) Stock \<Rightarrow> 's \<Rightarrow> ('n, 's) Stock \<times> 's" where
  "setPrice newPrice s st =
     (let s' = s\<lparr>price := newPrice\<rparr>
      in (s', notifyObservers s' st))"

text \<open>\<^verbatim>\<open>new Investor(name)\<close>, allocated under the identity \<open>a\<close>.\<close>

definition Investor :: "('n \<Rightarrow> string) \<Rightarrow> nat \<Rightarrow> string \<Rightarrow> ('n, console) Observer" where
  "Investor toString a name =
     \<lparr>ident = a,
      update = (\<lambda>stockPrice out.
        console_log (name @ '' notified: New stock price is $'' @ toString stockPrice) out)\<rparr>"

text \<open>A caller that sets one price after the other.\<close>

fun setPrices :: "'n list \<Rightarrow> ('n, 's) Stock \<Rightarrow> 's \<Rightarrow> ('n, 's) Stock \<times> 's" where
  "setPrices [] s st = (s, st)"
| "setPrices (p # ps) s st = (let (s', st') = setPrice p s st in setPrices ps s' st')"

section \<open>Command: Light and RemoteControl\<close>

text \<open>
  \<^verbatim>\<open>Light\<close>, like \<^verbatim>\<open>Car\<close>, \<^verbatim>\<open>PayPal\<close> or \<^verbatim>\<open>Espresso\<close>, has no field and is never
  compared: one value stands for every object of the class.
\<close>

datatype Light = Light

definition on :: "Light \<Rightarrow> console \<Rightarrow> console" where
  "on light out = console_log ''Light is ON'' out"

definition off :: "Light \<Rightarrow> console \<Rightarrow> console" where
  "off light out = console_log ''Light is OFF'' out"

datatype Command = LightOnCommand Light | LightOffCommand Light

fun execute :: "Command \<Rightarrow> console \<Rightarrow> console" where
  "execute (LightOnCommand light) out = on light out"
| "execute (LightOffCommand light) out = off light out"

text \<open>
  The field \<^verbatim>\<open>command\<close> has no initialiser and the class no constructor: it is
  undefined (\<open>None\<close>) until \<^verbatim>\<open>setCommand\<close> assigns it, and
  \<^verbatim>\<open>this.command.execute()\<close> on undefined is a \<^verbatim>\<open>TypeError\<close>.
\<close>

record RemoteControl =
  command :: "Command option"

definition new_RemoteControl :: RemoteControl where
  "new_RemoteControl = \<lparr>command = None\<rparr>"

definition setCommand :: "Command \<Rightarrow> RemoteControl \<Rightarrow> RemoteControl" where
  "setCommand c r = r\<lparr>command := Some c\<rparr>"

definition pressButton :: "RemoteControl \<Rightarrow> console \<Rightarrow> error + console" where
  "pressButton r out =
     (case command r of
        None \<Rightarrow> Inl (TypeError ''Cannot read properties of undefined'')
      | Some c \<Rightarrow> Inr (execute c out))"

section \<open>Adapter: payment services\<close>

datatype PayPal = PayPal

definition sendPayment :: "('n \<Rightarrow> string) \<Rightarrow> PayPal \<Rightarrow> 'n \<Rightarrow> console \<Rightarrow> console" where
  "sendPayment toString paypal amount out =
     console_log (''Payment of $'' @ toString amount @ '' made through PayPal.'') out"

datatype Stripe = Stripe

definition chargePayment :: "('n \<Rightarrow> string) \<Rightarrow> Stripe \<Rightarrow> 'n \<Rightarrow> console \<Rightarrow> console" where
  "chargePayment toString stripe amount out =
     console_log (''Payment of $'' @ toString amount @ '' made through Stripe.'') out"

datatype PaymentGateway = PayPalAdapter PayPal | StripeAdapter Stripe

fun makePayment :: "('n \<Rightarrow> string) \<Rightarrow> PaymentGateway \<Rightarrow> 'n \<Rightarrow> console \<Rightarrow> console" where
  "makePayment toString (PayPalAdapter paypal) amount out = sendPayment toString paypal amount out"
| "makePayment toString (StripeAdapter stripe) amount out = chargePayment toString stripe amount out"

section \<open>Decorator: Coffee\<close>

text \<open>
  A cost is a sum of the integers 50, 10 and 5. Such a sum is exact in the double
  precision of \<^verbatim>\<open>number\<close> as long as it stays below \<open>2 ^ 53\<close>, further than any chain
  of decorators that fits in memory reaches: costs are integers.
\<close>

datatype Coffee =
    Espresso
  | CoffeeDecorator Coffee
  | MilkDecorator Coffee
  | SugarDecorator Coffee

fun cost :: "Coffee \<Rightarrow> int" where
  "cost Espresso = 50"
| "cost (CoffeeDecorator coffee) = cost coffee"
| "cost (MilkDecorator coffee) = cost coffee + 10"
| "cost (SugarDecorator coffee) = cost coffee + 5"

fun description :: "Coffee \<Rightarrow> string" where
  "description Espresso = ''Espresso''"
| "description (CoffeeDecorator coffee) = description coffee"
| "description (MilkDecorator coffee) = description coffee @ '', Milk''"
| "description (SugarDecorator coffee) = description coffee @ '', Sugar''"

section \<open>Every operation, with what it can throw\<close>

text \<open>
  One world holds the objects the snippets work on: the static state of
  \<^verbatim>\<open>DatabaseConnection\<close> with the console, a \<^verbatim>\<open>Stock\<close> and a \<^verbatim>\<open>RemoteControl\<close>.
  An \<open>operation\<close> is a call of one method of the repository with its arguments,
  which are objects of the declared classes (never \<^verbatim>\<open>null\<close> or \<^verbatim>\<open>undefined\<close>);
  \<open>perform\<close> makes the call and gives what it returns and the world after it, or
  what it throws.
\<close>

record 'n world =
  statics :: runtime
  stock :: "('n, console) Stock"
  remote :: RemoteControl

definition initial_world :: "('n::numeral) world" where
  "initial_world =
     \<lparr>statics = initial_runtime, stock = new_Stock, remote = new_RemoteControl\<rparr>"

definition console_of :: "'n world \<Rightarrow> console" where
  "console_of w = console (statics w)"

definition printed :: "console \<Rightarrow> 'n world \<Rightarrow> 'n world" where
  "printed out w = w\<lparr>statics := (statics w)\<lparr>console := out\<rparr>\<rparr>"

datatype 'n operation =
    GetInstance
  | Query DatabaseConnection string
  | CreateVehicle string
  | Drive Vehicle
  | AddObserver "('n, console) Observer"
  | RemoveObserver "('n, console) Observer"
  | SetPrice 'n
  | Update "('n, console) Observer" 'n
  | On Light
  | Off Light
  | Execute Command
  | SetCommand Command
  | PressButton
  | SendPayment PayPal 'n
  | ChargePayment Stripe 'n
  | MakePayment PaymentGateway 'n
  | Cost Coffee
  | Description Coffee

datatype reply =
    Void
  | Connection DatabaseConnection
  | Made Vehicle
  | Amount int
  | Text string

fun perform :: "('n \<Rightarrow> string) \<Rightarrow> 'n operation \<Rightarrow> 'n world \<Rightarrow> error + reply \<times> 'n world" where
  "perform toString GetInstance w =
     (let (c, rt') = getInstance (statics w) in Inr (Connection c, w\<lparr>statics := rt'\<rparr>))"
| "perform toString (Query db sql) w = Inr (Void, printed (query db sql (console_of w)) w)"
| "perform toString (CreateVehicle type) w =
     (case createVehicle type of Inl e \<Rightarrow> Inl e | Inr v \<Rightarrow> Inr (Made v, w))"
| "perform toString (Drive v) w = Inr (Void, printed (drive v (console_of w)) w)"
| "perform toString (AddObserver observer) w =
     Inr (Void, w\<lparr>stock := addObserver observer (stock w)\<rparr>)"
| "perform toString (RemoveObserver observer) w =
     Inr (Void, w\<lparr>stock := removeObserver observer (stock w)\<rparr>)"
| "perform toString (SetPrice newPrice) w =
     (let (s', out') = setPrice newPrice (stock w) (console_of w)
      in Inr (Void, printed out' (w\<lparr>stock := s'\<rparr>)))"
| "perform toString (Update observer stockPrice) w =
     Inr (Void, printed (update observer stockPrice (console_of w)) w)"
| "perform toString (On light) w = Inr (Void, printed (on light (console_of w)) w)"
| "perform toString (Off light) w = Inr (Void, printed (off light (console_of w)) w)"
| "perform toString (Execute c) w = Inr (Void, printed (execute c (console_of w)) w)"
| "perform toString (SetCommand c) w = Inr (Void, w\<lparr>remote := setCommand c (remote w)\<rparr>)"
| "perform toString PressButton w =
     (case pressButton (remote w) (console_of w) of
        Inl e \<Rightarrow> Inl e
      | Inr out' \<Rightarrow> Inr (Void, printed out' w))"
| "perform toString (SendPayment paypal amount) w =
     Inr (Void, printed (sendPayment toString paypal amount (console_of w)) w)"
| "perform toString (ChargePayment stripe amount) w =
     Inr (Void, printed (chargePayment toString stripe amount (console_of w)) w)"
| "perform toString (MakePayment gateway amount) w =
     Inr (Void, printed (makePayment toString gateway amount (console_of w)) w)"
| "perform toString (Cost coffee) w = Inr (Amount (cost coffee), w)"
| "perform toString (Description coffee) w = Inr (Text (description coffee), w)"

text \<open>A script: one call after the other, until one throws.\<close>

fun perform_all :: "('n \<Rightarrow> string) \<Rightarrow> 'n operation list \<Rightarrow> 'n world \<Rightarrow> error + 'n world" where
  "perform_all toString [] w = Inr w"
| "perform_all toString (op # ops) w =
     (case perform toString op w of
        Inl e \<Rightarrow> Inl e
      | Inr (r, w') \<Rightarrow> perform_all toString ops w')"

section \<open>Properties of the singleton\<close>

lemma getInstance_sets_instance:
  "the_instance (snd (getInstance rt)) = Some (fst (getInstance rt))"
  by (simp add: getInstance_def new_DatabaseConnection_def split: option.splits)

lemma getInstance_again:
  "the_instance rt = Some c \<Longrightarrow> getInstance rt = (c, rt)"
  by (simp add: getInstance_def)

lemma getInstance_times_cached:
  "the_instance rt = Some c \<Longrightarrow> getInstance_times n rt = (replicate n c, rt)"
  by (induction n) (simp_all add: getInstance_again)

lemma getInstance_times_Suc:
  "getInstance_times (Suc n) rt =
     (replicate (Suc n) (fst (getInstance rt)), snd (getInstance rt))"
proof -
  obtain c rt' where g: "getInstance rt = (c, rt')"
    by (cases "getInstance rt")
  have "the_instance rt' = Some c"
    using getInstance_sets_instance [of rt] by (simp add: g)
  then have "getInstance_times n rt' = (replicate n c, rt')"
    by (rule getInstance_times_cached)
  then show ?thesis
    by (simp add: g)
qed

lemma constructions_first_call:
  "the_instance rt = None \<Longrightarrow>
     constructions (snd (getInstance rt)) = Suc (constructions rt) \<and>
     allocated (snd (getInstance rt)) = Suc (allocated rt)"
  by (simp add: getInstance_def new_DatabaseConnection_def constructions_def console_log_def)

text \<open>
  C1. For every \<open>n \<ge> 1\<close>, \<open>n\<close> calls of \<^verbatim>\<open>DatabaseConnection.getInstance()\<close>
  return \<open>n\<close> references that are all identical to the first call's result. The calls
  after the first construct nothing: they leave the state as the first call left it.
  When no instance existed before, the first call constructs exactly one (one object
  allocated, one constructor line printed), so exactly one instance is constructed
  however many times it is requested.
\<close>

theorem getInstance_same_instance:
  "1 \<le> n \<Longrightarrow>
     fst (getInstance_times n rt) = replicate n (fst (getInstance rt)) \<and>
     (\<forall>c \<in> set (fst (getInstance_times n rt)). c = fst (getInstance rt)) \<and>
     snd (getInstance_times n rt) = snd (getInstance rt) \<and>
     (the_instance rt = None \<longrightarrow>
        constructions (snd (getInstance_times n rt)) = Suc (constructions rt) \<and>
        allocated (snd (getInstance_times n rt)) = Suc (allocated rt))"
proof -
  assume "1 \<le> n"
  then obtain m where n: "n = Suc m"
    by (cases n) simp_all
  have calls: "getInstance_times n rt = (replicate n (fst (getInstance rt)), snd (getInstance rt))"
    unfolding n by (rule getInstance_times_Suc)
  show ?thesis
    unfolding calls using constructions_first_call [of rt] by simp
qed

theorem getInstance_same_instance_witness:
  "(1::nat) \<le> 3 \<and>
   the_instance initial_runtime = None \<and>
   fst (getInstance_times 3 initial_runtime) =
     [DatabaseConnection 0, DatabaseConnection 0, DatabaseConnection 0] \<and>
   snd (getInstance_times 3 initial_runtime) = snd (getInstance initial_runtime) \<and>
   constructions (snd (getInstance_times 3 initial_runtime)) = 1 \<and>
   allocated (snd (getInstance_times 3 initial_runtime)) = 1"
proof -
  have h: "(1::nat) \<le> 3" by simp
  have e: "the_instance initial_runtime = None"
    by (simp add: initial_runtime_def)
  have f: "fst (getInstance initial_runtime) = DatabaseConnection 0"
    by (simp add: getInstance_def new_DatabaseConnection_def initial_runtime_def)
  have c0: "constructions initial_runtime = 0" "allocated initial_runtime = 0"
    by (simp_all add: constructions_def initial_runtime_def)
  have r: "replicate 3 (DatabaseConnection 0) =
      [DatabaseConnection 0, DatabaseConnection 0, DatabaseConnection 0]"
    by (simp add: numeral_3_eq_3)
  note t = getInstance_same_instance [OF h, of initial_runtime, unfolded f r]
  have t': "fst (getInstance_times 3 initial_runtime) =
     [DatabaseConnection 0, DatabaseConnection 0, DatabaseConnection 0] \<and>
   snd (getInstance_times 3 initial_runtime) = snd (getInstance initial_runtime) \<and>
   constructions (snd (getInstance_times 3 initial_runtime)) = Suc 0 \<and>
   allocated (snd (getInstance_times 3 initial_runtime)) = Suc 0"
    using t e unfolding c0 by (elim conjE impE) (assumption, (intro conjI; assumption))
  show ?thesis
    apply (insert h e t')
    apply (unfold One_nat_def)
    apply (intro conjI)
    apply assumption
    apply assumption
    apply (elim conjE, assumption)+
    done
qed

section \<open>Properties of the factory\<close>

text \<open>
  C2. \<^verbatim>\<open>VehicleFactory.createVehicle(tag)\<close> returns a \<^verbatim>\<open>Car\<close>, whose \<^verbatim>\<open>drive\<close> prints the
  car line, for the tag \<^verbatim>\<open>"car"\<close>, and a \<^verbatim>\<open>Bike\<close>, whose \<^verbatim>\<open>drive\<close> prints the bike
  line, for the tag \<^verbatim>\<open>"bike"\<close>; for every other tag it throws the error
  "Vehicle type not supported" and returns no vehicle.
\<close>

theorem createVehicle_by_tag:
  "createVehicle ''car'' = Inr Car \<and>
   drive Car out = out @ [''Driving a car''] \<and>
   createVehicle ''bike'' = Inr Bike \<and>
   drive Bike out = out @ [''Riding a bike''] \<and>
   (tag \<noteq> ''car'' \<and> tag \<noteq> ''bike'' \<longrightarrow>
      createVehicle tag = Inl (Error ''Vehicle type not supported'') \<and>
      (\<forall>v. createVehicle tag \<noteq> Inr v))"
  by (simp add: createVehicle_def console_log_def)

theorem createVehicle_by_tag_witness:
  "''truck'' \<noteq> ''car'' \<and> ''truck'' \<noteq> ''bike'' \<and>
   createVehicle ''truck'' = Inl (Error ''Vehicle type not supported'')"
  using createVehicle_by_tag [of "[]" "''truck''"] by simp

section \<open>Properties of the stock\<close>

lemma setPrice_stock: "fst (setPrice newPrice s st) = s\<lparr>price := newPrice\<rparr>"
  by (simp add: setPrice_def Let_def)

lemma setPrice_effect:
  "snd (setPrice newPrice s st) = foldl (\<lambda>st ob. update ob newPrice st) st (observers s)"
  by (simp add: setPrice_def Let_def notifyObservers_def)

lemma setPrice_observers: "observers (fst (setPrice newPrice s st)) = observers s"
  by (simp add: setPrice_stock)

lemma setPrices_observers: "observers (fst (setPrices ps s st)) = observers s"
  by (induction ps arbitrary: s st) (simp_all add: setPrice_def Let_def)

lemma setPrices_effect:
  "snd (setPrices ps s st) =
     foldl (\<lambda>st p. foldl (\<lambda>st ob. update ob p st) st (observers s)) st ps"
  by (induction ps arbitrary: s st) (simp_all add: setPrice_def Let_def notifyObservers_def)

lemma Investor_lines:
  "foldl (\<lambda>out ob. update ob p out) out (map (\<lambda>(a, name). Investor toString a name) investors) =
     out @ map (\<lambda>(a, name). name @ '' notified: New stock price is $'' @ toString p) investors"
  by (induction investors arbitrary: out) (simp_all add: Investor_def console_log_def split: prod.splits)

text \<open>
  C4. \<^verbatim>\<open>Stock.setPrice(newPrice)\<close> stores \<open>newPrice\<close> and then calls
  \<^verbatim>\<open>update\<close> with the stored, new price on every subscribed observer, in the order of
  the list, which is the order of subscription since \<^verbatim>\<open>addObserver\<close> appends. After
  two observers have subscribed to a new stock, \<^verbatim>\<open>setPrice(105)\<close> calls the first one's
  \<^verbatim>\<open>update\<close> with 105 and then the second one's, each once: for the two investors
  of the usage script the console shows their two lines, in that order.
\<close>

theorem setPrice_notifies_in_order:
  "fst (setPrice newPrice s st) = s\<lparr>price := newPrice\<rparr> \<and>
   snd (setPrice newPrice s st) =
     foldl (\<lambda>st ob. update ob newPrice st) st (observers s) \<and>
   observers (addObserver o2 (addObserver o1 s)) = observers s @ [o1, o2] \<and>
   snd (setPrice p (addObserver o2 (addObserver o1 new_Stock)) st) =
     update o2 p (update o1 p st) \<and>
   snd (setPrice 105
          (addObserver (Investor Number_toString 1 ''Investor 2'')
            (addObserver (Investor Number_toString 0 ''Investor 1'') new_Stock)) []) =
     [''Investor 1 notified: New stock price is $105'',
      ''Investor 2 notified: New stock price is $105'']"
  by (simp add: setPrice_stock setPrice_effect addObserver_def new_Stock_def Investor_def
      console_log_def Number_toString_def digit_def)

text \<open>
  C10. \<^verbatim>\<open>Stock.setPrice\<close> has no guard on a change: setting the price to the price
  already stored leaves the stock as it is and still calls \<^verbatim>\<open>update\<close> on every
  subscriber, and setting the same price twice notifies every subscriber twice. A new
  stock (price 100) set to 100 prints the investor's line with the value 100.
\<close>

theorem setPrice_no_change_detection:
  "fst (setPrice (price s) s st) = s \<and>
   snd (setPrice (price s) s st) =
     foldl (\<lambda>st ob. update ob (price s) st) st (observers s) \<and>
   snd (setPrices [p, p] s st) =
     foldl (\<lambda>st ob. update ob p st)
       (foldl (\<lambda>st ob. update ob p st) st (observers s)) (observers s) \<and>
   snd (setPrice 100 (addObserver (Investor Number_toString 0 ''Investor 1'') new_Stock) []) =
     [''Investor 1 notified: New stock price is $100'']"
proof (intro conjI)
  show "fst (setPrice (price s) s st) = s"
    by (simp add: setPrice_stock)
  show "snd (setPrice (price s) s st) =
     foldl (\<lambda>st ob. update ob (price s) st) st (observers s)"
    by (rule setPrice_effect)
  show "snd (setPrices [p, p] s st) =
     foldl (\<lambda>st ob. update ob p st)
       (foldl (\<lambda>st ob. update ob p st) st (observers s)) (observers s)"
    by (subst setPrices_effect) simp
  show "snd (setPrice 100 (addObserver (Investor Number_toString 0 ''Investor 1'') new_Stock) []) =
     [''Investor 1 notified: New stock price is $100'']"
    by (simp add: setPrice_effect addObserver_def new_Stock_def
      Investor_def console_log_def Number_toString_def digit_def)
qed

section \<open>Removing an observer\<close>

lemma removeObserver_observers:
  "observers (removeObserver ob s) = filter (\<lambda>x. ident x \<noteq> ident ob) (observers s)"
  by (simp add: removeObserver_def)

text \<open>
  C5. \<^verbatim>\<open>Stock.removeObserver(o)\<close> keeps exactly the subscribers whose identity
  differs from that of \<open>o\<close>: no occurrence of \<open>o\<close> is left, duplicates included, and
  the occurrences of every other subscriber stay, in their order. The price is
  untouched. Every later \<^verbatim>\<open>setPrice\<close> (one, or any number in a row) calls
  \<^verbatim>\<open>update\<close> on those remaining subscribers only, so never on \<open>o\<close>.
\<close>

theorem removeObserver_removes_all:
  "observers (removeObserver ob s) = filter (\<lambda>x. ident x \<noteq> ident ob) (observers s) \<and>
   (\<forall>x \<in> set (observers (removeObserver ob s)). ident x \<noteq> ident ob) \<and>
   subseq (observers (removeObserver ob s)) (observers s) \<and>
   (i \<noteq> ident ob \<longrightarrow>
      filter (\<lambda>x. ident x = i) (observers (removeObserver ob s)) =
      filter (\<lambda>x. ident x = i) (observers s)) \<and>
   price (removeObserver ob s) = price s \<and>
   snd (setPrice p (removeObserver ob s) st) =
     foldl (\<lambda>st x. update x p st) st (filter (\<lambda>x. ident x \<noteq> ident ob) (observers s)) \<and>
   snd (setPrices ps (removeObserver ob s) st) =
     foldl (\<lambda>st p. foldl (\<lambda>st x. update x p st) st
       (filter (\<lambda>x. ident x \<noteq> ident ob) (observers s))) st ps"
proof (intro conjI)
  show "observers (removeObserver ob s) = filter (\<lambda>x. ident x \<noteq> ident ob) (observers s)"
    by (rule removeObserver_observers)
  show "\<forall>x \<in> set (observers (removeObserver ob s)). ident x \<noteq> ident ob"
    by (simp add: removeObserver_observers)
  show "subseq (observers (removeObserver ob s)) (observers s)"
    by (simp add: removeObserver_observers)
  show "i \<noteq> ident ob \<longrightarrow>
      filter (\<lambda>x. ident x = i) (observers (removeObserver ob s)) =
      filter (\<lambda>x. ident x = i) (observers s)"
    by (auto simp add: removeObserver_observers intro: filter_cong)
  show "price (removeObserver ob s) = price s"
    by (simp add: removeObserver_def)
  show "snd (setPrice p (removeObserver ob s) st) =
     foldl (\<lambda>st x. update x p st) st (filter (\<lambda>x. ident x \<noteq> ident ob) (observers s))"
    by (simp add: setPrice_effect removeObserver_observers)
  show "snd (setPrices ps (removeObserver ob s) st) =
     foldl (\<lambda>st p. foldl (\<lambda>st x. update x p st) st
       (filter (\<lambda>x. ident x \<noteq> ident ob) (observers s))) st ps"
    by (simp add: setPrices_effect removeObserver_observers)
qed

theorem removeObserver_removes_all_witness:
  "map ident (observers
     (addObserver (Investor Number_toString 0 ''Investor 1'')
       (addObserver (Investor Number_toString 1 ''Investor 2'')
         (addObserver (Investor Number_toString 0 ''Investor 1'') new_Stock)))) = [0, 1, 0] \<and>
   map ident (observers
     (removeObserver (Investor Number_toString 0 ''Investor 1'')
       (addObserver (Investor Number_toString 0 ''Investor 1'')
         (addObserver (Investor Number_toString 1 ''Investor 2'')
           (addObserver (Investor Number_toString 0 ''Investor 1'') new_Stock))))) = [1] \<and>
   (1::nat) \<noteq> ident (Investor Number_toString 0 ''Investor 1'') \<and>
   snd (setPrice 105
     (removeObserver (Investor Number_toString 0 ''Investor 1'')
       (addObserver (Investor Number_toString 0 ''Investor 1'')
         (addObserver (Investor Number_toString 1 ''Investor 2'')
           (addObserver (Investor Number_toString 0 ''Investor 1'') new_Stock)))) []) =
     [''Investor 2 notified: New stock price is $105'']"
  using removeObserver_removes_all
    [of "Investor Number_toString 0 ''Investor 1''"
        "addObserver (Investor Number_toString 0 ''Investor 1'')
          (addObserver (Investor Number_toString 1 ''Investor 2'')
            (addObserver (Investor Number_toString 0 ''Investor 1'') new_Stock))"
        1 105 "[]" "[]"]
  by (simp add: addObserver_def new_Stock_def Investor_def console_log_def
      Number_toString_def digit_def)

section \<open>Properties of the decorators\<close>

text \<open>
  C6. An \<^verbatim>\<open>Espresso\<close> costs 50 and is described as "Espresso"; wrapped in a
  \<^verbatim>\<open>MilkDecorator\<close> and then in a \<^verbatim>\<open>SugarDecorator\<close> it costs 65 and is described as
  "Espresso, Milk, Sugar".
\<close>

theorem espresso_milk_sugar:
  "cost Espresso = 50 \<and>
   description Espresso = ''Espresso'' \<and>
   cost (SugarDecorator (MilkDecorator Espresso)) = 65 \<and>
   description (SugarDecorator (MilkDecorator Espresso)) = ''Espresso, Milk, Sugar''"
  by simp

text \<open>
  C7. For every coffee \<open>c\<close>, of any nesting depth, a \<^verbatim>\<open>MilkDecorator\<close> around \<open>c\<close>
  costs the cost of \<open>c\<close> plus 10 and is described by the description of \<open>c\<close>
  followed by ", Milk"; a \<^verbatim>\<open>SugarDecorator\<close> around \<open>c\<close> costs the cost of \<open>c\<close> plus 5
  and is described by the description of \<open>c\<close> followed by ", Sugar".
\<close>

theorem decorator_adds_to_wrapped:
  "cost (MilkDecorator c) = cost c + 10 \<and>
   description (MilkDecorator c) = description c @ '', Milk'' \<and>
   cost (SugarDecorator c) = cost c + 5 \<and>
   description (SugarDecorator c) = description c @ '', Sugar''"
  by simp

section \<open>Properties of the adapters\<close>

text \<open>
  C9. For every amount, \<^verbatim>\<open>makePayment(amount)\<close> on a \<^verbatim>\<open>PayPalAdapter\<close> is the call of
  \<^verbatim>\<open>sendPayment\<close> on the wrapped \<^verbatim>\<open>PayPal\<close> object with the same amount, and on a
  \<^verbatim>\<open>StripeAdapter\<close> the call of \<^verbatim>\<open>chargePayment\<close> on the wrapped \<^verbatim>\<open>Stripe\<close> object
  with the same amount: the one line printed carries that amount.
\<close>

theorem makePayment_delegates:
  "makePayment toString (PayPalAdapter paypal) amount out =
     sendPayment toString paypal amount out \<and>
   makePayment toString (PayPalAdapter paypal) amount out =
     out @ [''Payment of $'' @ toString amount @ '' made through PayPal.''] \<and>
   makePayment toString (StripeAdapter stripe) amount out =
     chargePayment toString stripe amount out \<and>
   makePayment toString (StripeAdapter stripe) amount out =
     out @ [''Payment of $'' @ toString amount @ '' made through Stripe.'']"
  by (simp add: sendPayment_def chargePayment_def console_log_def)

section \<open>Properties of the remote control\<close>

text \<open>
  C8. After \<^verbatim>\<open>setCommand(c)\<close>, \<^verbatim>\<open>pressButton()\<close> returns normally and its effect is
  exactly that of \<^verbatim>\<open>c.execute()\<close>; after a further \<^verbatim>\<open>setCommand(c')\<close> the bound
  command is \<open>c'\<close> and the effect of \<^verbatim>\<open>pressButton()\<close> is exactly that of
  \<^verbatim>\<open>c'.execute()\<close>. With the commands of the usage script the light is switched on,
  and after rebinding switched off, by the same \<open>pressButton\<close>.
\<close>

theorem pressButton_executes_bound_command:
  "pressButton (setCommand c r) out = Inr (execute c out) \<and>
   pressButton (setCommand c' (setCommand c r)) out = Inr (execute c' out) \<and>
   command (setCommand c' (setCommand c r)) = Some c' \<and>
   pressButton (setCommand (LightOnCommand light) r) out = Inr (out @ [''Light is ON'']) \<and>
   pressButton (setCommand (LightOffCommand light) (setCommand (LightOnCommand light) r)) out =
     Inr (out @ [''Light is OFF''])"
  by (simp add: pressButton_def setCommand_def on_def off_def console_log_def)

section \<open>What can fail\<close>

lemma createVehicle_fails_iff:
  "(\<exists>e. createVehicle type = Inl e) \<longleftrightarrow> type \<noteq> ''car'' \<and> type \<noteq> ''bike''"
  by (simp add: createVehicle_def)

lemma pressButton_fails_iff:
  "(\<exists>e. pressButton r out = Inl e) \<longleftrightarrow> command r = None"
  by (simp add: pressButton_def split: option.splits)

lemma perform_fails_iff:
  "(\<exists>e. perform toString op w = Inl e) \<longleftrightarrow>
     (\<exists>type. op = CreateVehicle type \<and> type \<noteq> ''car'' \<and> type \<noteq> ''bike'') \<or>
     (op = PressButton \<and> command (remote w) = None)"
proof (cases op)
  case (CreateVehicle type)
  then show ?thesis
    using createVehicle_fails_iff [of type] by (auto split: sum.splits)
next
  case PressButton
  then show ?thesis
    using pressButton_fails_iff [of "remote w" "console_of w"] by (auto split: sum.splits)
qed (simp_all split: prod.splits)

lemma perform_remote:
  "perform toString op w = Inr (r, w') \<Longrightarrow>
     remote w' = (case op of SetCommand c \<Rightarrow> setCommand c (remote w) | _ \<Rightarrow> remote w)"
  by (cases op) (auto simp add: printed_def split: prod.splits sum.splits)

lemma perform_keeps_bound:
  assumes "perform toString op w = Inr (r, w')" and "command (remote w) \<noteq> None"
  shows "command (remote w') \<noteq> None"
  using perform_remote [OF assms(1)] assms(2)
  by (cases op) (simp_all add: setCommand_def)

lemma perform_all_append:
  "perform_all toString (xs @ ys) w =
     (case perform_all toString xs w of
        Inl e \<Rightarrow> Inl e
      | Inr w' \<Rightarrow> perform_all toString ys w')"
  by (induction xs arbitrary: w) (simp_all split: sum.splits prod.splits)

lemma perform_all_bound:
  "command (remote w) \<noteq> None \<Longrightarrow>
   \<forall>type. CreateVehicle type \<in> set ops \<longrightarrow> type = ''car'' \<or> type = ''bike'' \<Longrightarrow>
   \<exists>w'. perform_all toString ops w = Inr w'"
proof (induction ops arbitrary: w)
  case Nil
  then show ?case by simp
next
  case (Cons op ops)
  have "\<not> (\<exists>e. perform toString op w = Inl e)"
    unfolding perform_fails_iff using Cons.prems by auto
  then obtain r w1 where p: "perform toString op w = Inr (r, w1)"
    by (cases "perform toString op w") auto
  have "command (remote w1) \<noteq> None"
    using perform_keeps_bound [OF p] Cons.prems(1) by simp
  then have "\<exists>w'. perform_all toString ops w1 = Inr w'"
    using Cons.IH Cons.prems(2) by simp
  then show ?case
    by (simp add: p)
qed

lemma perform_all_no_press:
  "PressButton \<notin> set ops \<Longrightarrow>
   \<forall>type. CreateVehicle type \<in> set ops \<longrightarrow> type = ''car'' \<or> type = ''bike'' \<Longrightarrow>
   \<exists>w'. perform_all toString ops w = Inr w' \<and>
     ((\<forall>c. SetCommand c \<notin> set ops) \<longrightarrow> command (remote w') = command (remote w))"
proof (induction ops arbitrary: w)
  case Nil
  then show ?case by simp
next
  case (Cons op ops)
  have "\<not> (\<exists>e. perform toString op w = Inl e)"
    unfolding perform_fails_iff using Cons.prems by auto
  then obtain r w1 where p: "perform toString op w = Inr (r, w1)"
    by (cases "perform toString op w") auto
  from Cons.IH [of w1] Cons.prems obtain w' where w':
    "perform_all toString ops w1 = Inr w'"
    "(\<forall>c. SetCommand c \<notin> set ops) \<longrightarrow> command (remote w') = command (remote w1)"
    by auto
  have "(\<forall>c. SetCommand c \<notin> set (op # ops)) \<longrightarrow> command (remote w1) = command (remote w)"
    using perform_remote [OF p] by (cases op) auto
  with w' show ?case
    by (auto simp add: p)
qed

text \<open>
  C3, as the code has it. With arguments of their declared classes, a call fails in
  exactly two cases: \<^verbatim>\<open>createVehicle\<close> with a tag other than \<^verbatim>\<open>"car"\<close> and \<^verbatim>\<open>"bike"\<close>,
  and \<^verbatim>\<open>pressButton\<close> on a \<^verbatim>\<open>RemoteControl\<close> whose command has never been set; every
  other operation returns normally in every state. In a script where a
  \<^verbatim>\<open>setCommand\<close> comes before the first \<^verbatim>\<open>pressButton\<close> (and every tag is supported)
  no call fails. In a script where the first \<^verbatim>\<open>pressButton\<close> comes with no
  \<^verbatim>\<open>setCommand\<close> before it, on a remote control not yet bound, that
  \<^verbatim>\<open>pressButton\<close> throws a \<^verbatim>\<open>TypeError\<close>.
\<close>

theorem failures_of_operations:
  "((\<exists>e. perform toString op w = Inl e) \<longleftrightarrow>
      (\<exists>type. op = CreateVehicle type \<and> type \<noteq> ''car'' \<and> type \<noteq> ''bike'') \<or>
      (op = PressButton \<and> command (remote w) = None)) \<and>
   ((\<forall>type. CreateVehicle type \<in> set (pre @ post) \<longrightarrow> type = ''car'' \<or> type = ''bike'') \<and>
    PressButton \<notin> set pre \<longrightarrow>
      (\<exists>w'. perform_all toString (pre @ SetCommand c # post) w = Inr w')) \<and>
   ((\<forall>type. CreateVehicle type \<in> set pre \<longrightarrow> type = ''car'' \<or> type = ''bike'') \<and>
    PressButton \<notin> set pre \<and> (\<forall>c. SetCommand c \<notin> set pre) \<and> command (remote w) = None \<longrightarrow>
      perform_all toString (pre @ PressButton # post) w =
        Inl (TypeError ''Cannot read properties of undefined''))"
proof (intro conjI impI)
  show "(\<exists>e. perform toString op w = Inl e) \<longleftrightarrow>
      (\<exists>type. op = CreateVehicle type \<and> type \<noteq> ''car'' \<and> type \<noteq> ''bike'') \<or>
      (op = PressButton \<and> command (remote w) = None)"
    by (rule perform_fails_iff)
next
  assume a: "(\<forall>type. CreateVehicle type \<in> set (pre @ post) \<longrightarrow> type = ''car'' \<or> type = ''bike'') \<and>
    PressButton \<notin> set pre"
  then obtain w1 where w1: "perform_all toString pre w = Inr w1"
    using perform_all_no_press [of pre toString w] by auto
  let ?w2 = "w1\<lparr>remote := setCommand c (remote w1)\<rparr>"
  have "command (remote ?w2) \<noteq> None"
    by (simp add: setCommand_def)
  then obtain w' where "perform_all toString post ?w2 = Inr w'"
    using perform_all_bound [of ?w2 post toString] a by auto
  then show "\<exists>w'. perform_all toString (pre @ SetCommand c # post) w = Inr w'"
    by (simp add: perform_all_append w1)
next
  assume a: "(\<forall>type. CreateVehicle type \<in> set pre \<longrightarrow> type = ''car'' \<or> type = ''bike'') \<and>
    PressButton \<notin> set pre \<and> (\<forall>c. SetCommand c \<notin> set pre) \<and> command (remote w) = None"
  then obtain w1 where w1: "perform_all toString pre w = Inr w1"
    and "command (remote w1) = command (remote w)"
    using perform_all_no_press [of pre toString w] by auto
  with a have "command (remote w1) = None"
    by simp
  then show "perform_all toString (pre @ PressButton # post) w =
        Inl (TypeError ''Cannot read properties of undefined'')"
    by (simp add: perform_all_append w1 pressButton_def)
qed

theorem failures_of_operations_witness:
  "map_sum id console_of
     (perform_all Number_toString
        ([GetInstance, CreateVehicle ''bike''] @ SetCommand (LightOnCommand Light) #
           [PressButton, SetCommand (LightOffCommand Light), PressButton, CreateVehicle ''car''])
        (initial_world :: int world)) =
     Inr [''New DatabaseConnection instance created.'', ''Light is ON'', ''Light is OFF''] \<and>
   command (remote (initial_world :: int world)) = None \<and>
   perform Number_toString PressButton (initial_world :: int world) =
     Inl (TypeError ''Cannot read properties of undefined'') \<and>
   perform_all Number_toString
     ([GetInstance, CreateVehicle ''bike''] @ PressButton #
        [PressButton, SetCommand (LightOffCommand Light), PressButton, CreateVehicle ''car''])
     (initial_world :: int world) =
     Inl (TypeError ''Cannot read properties of undefined'')"
proof -
  note t = failures_of_operations
    [of Number_toString PressButton "initial_world :: int world"
        "[GetInstance, CreateVehicle ''bike'']"
        "[PressButton, SetCommand (LightOffCommand Light), PressButton, CreateVehicle ''car'']"
        "LightOnCommand Light"]
  have none: "command (remote (initial_world :: int world)) = None"
    by (simp add: initial_world_def new_RemoteControl_def)
  have h1: "(\<forall>type. CreateVehicle type \<in> set
        ([GetInstance, CreateVehicle ''bike''] @
         [PressButton, SetCommand (LightOffCommand Light), PressButton, CreateVehicle ''car''])
        \<longrightarrow> type = ''car'' \<or> type = ''bike'') \<and>
      (PressButton :: int operation) \<notin> set [GetInstance, CreateVehicle ''bike'']"
    by auto
  have h2: "(\<forall>type. CreateVehicle type \<in> set [GetInstance :: int operation, CreateVehicle ''bike'']
        \<longrightarrow> type = ''car'' \<or> type = ''bike'') \<and>
      (PressButton :: int operation) \<notin> set [GetInstance, CreateVehicle ''bike''] \<and>
      (\<forall>c. SetCommand c \<notin> set [GetInstance :: int operation, CreateVehicle ''bike'']) \<and>
      command (remote (initial_world :: int world)) = None"
    using none by auto
  from t have fails: "(\<exists>e. perform Number_toString PressButton (initial_world :: int world) = Inl e)"
    using none by blast
  from t h2 have seq_fails: "perform_all Number_toString
     ([GetInstance, CreateVehicle ''bike''] @ PressButton #
        [PressButton, SetCommand (LightOffCommand Light), PressButton, CreateVehicle ''car''])
     (initial_world :: int world) =
     Inl (TypeError ''Cannot read properties of undefined'')"
    by blast
  from t h1 obtain w' where ok: "perform_all Number_toString
        ([GetInstance, CreateVehicle ''bike''] @ SetCommand (LightOnCommand Light) #
           [PressButton, SetCommand (LightOffCommand Light), PressButton, CreateVehicle ''car''])
        (initial_world :: int world) = Inr w'"
    by blast
  have run: "map_sum id console_of
     (perform_all Number_toString
        ([GetInstance, CreateVehicle ''bike''] @ SetCommand (LightOnCommand Light) #
           [PressButton, SetCommand (LightOffCommand Light), PressButton, CreateVehicle ''car''])
        (initial_world :: int world)) =
     Inr [''New DatabaseConnection instance created.'', ''Light is ON'', ''Light is OFF'']"
    using ok
    by (auto simp add: initial_world_def initial_runtime_def new_RemoteControl_def new_Stock_def
        getInstance_def new_DatabaseConnection_def createVehicle_def setCommand_def
        pressButton_def on_def off_def console_log_def console_of_def printed_def)
  have press: "perform Number_toString PressButton (initial_world :: int world) =
     Inl (TypeError ''Cannot read properties of undefined'')"
    using fails by (auto simp add: pressButton_def split: option.splits sum.splits)
  from run none press seq_fails show ?thesis
    by (intro conjI)
qed

text \<open>
  The first call on a new \<^verbatim>\<open>RemoteControl\<close> being \<^verbatim>\<open>pressButton()\<close>: the field
  \<^verbatim>\<open>command\<close> is undefined and the call throws.
\<close>

theorem pressButton_before_setCommand_fails:
  "pressButton new_RemoteControl [] = Inl (TypeError ''Cannot read properties of undefined'') \<and>
   perform_all Number_toString [PressButton] (initial_world :: int world) =
     Inl (TypeError ''Cannot read properties of undefined'')"
  by (simp add: pressButton_def new_RemoteControl_def initial_world_def)

end
